theory Spec2Isabelle
  imports Main
begin

section \<open>Python values and exceptions\<close>

text \<open>
  The exceptions the two modules can raise or receive from their libraries. All of them
  are subclasses of Python's \<open>Exception\<close>. In \<open>requests\<close>, \<open>ConnectTimeout\<close> is a
  subclass of \<open>ConnectionError\<close>; \<open>ReadTimeout\<close> is not.
\<close>

datatype exn =
    ReadTimeout
  | ConnectTimeout
  | ConnectionError
  | HTTPError
  | ValueError
  | TypeError
  | AttributeError
  | IndexError

text \<open>
  A spreadsheet cell as \<open>watch.get(key)\<close> returns it: a string, an integer, or \<open>None\<close>
  (also the value of \<open>get\<close> for an absent key). Floating-point and date cells are outside
  this model. A character stands for the Unicode code point of the same number
  (0 to 255).
\<close>

datatype cell = CStr string | CInt int | CNone

text \<open>
  One record of \<open>watch_remnants\<close>, with the three columns the code reads. The field
  names \<open>Kod\<close>, \<open>Kolichestvo\<close> and \<open>Tsena\<close> transliterate the Cyrillic keys of the
  source: the code, the quantity and the price.
\<close>

record row =
  Kod :: cell
  Kolichestvo :: cell
  Tsena :: cell

subsection \<open>\<open>str()\<close>\<close>

definition digit_char :: "nat \<Rightarrow> char" where
  "digit_char d = ''0123456789'' ! d"

function string_of_nat :: "nat \<Rightarrow> string" where
  "string_of_nat n =
     (if n < 10 then [digit_char n]
      else string_of_nat (n div 10) @ [digit_char (n mod 10)])"
  by pat_completeness auto
termination
  by (relation "measure id") auto

declare string_of_nat.simps [simp del]

definition string_of_int :: "int \<Rightarrow> string" where
  "string_of_int i =
     (if i < 0 then CHR ''-'' # string_of_nat (nat (- i)) else string_of_nat (nat i))"

fun py_str :: "cell \<Rightarrow> string" where
  "py_str (CStr s) = s"
| "py_str (CInt i) = string_of_int i"
| "py_str CNone = ''None''"

subsection \<open>\<open>int()\<close>\<close>

definition is_digit :: "char \<Rightarrow> bool" where
  "is_digit c = (48 \<le> (of_char c :: nat) \<and> (of_char c :: nat) \<le> 57)"

text \<open>
  The characters \<open>int()\<close> skips around a number: tab, line feed, vertical tab, form feed,
  carriage return, space, and (of the code points up to 255) U+0085 and U+00A0.
\<close>

definition is_space :: "char \<Rightarrow> bool" where
  "is_space c = ((of_char c :: nat) \<in> {9, 10, 11, 12, 13, 32, 133, 160})"

definition digit_val :: "char \<Rightarrow> nat" where
  "digit_val c = (of_char c :: nat) - 48"

definition nat_of_digits :: "string \<Rightarrow> nat" where
  "nat_of_digits ds = foldl (\<lambda>a c. 10 * a + digit_val c) 0 ds"

fun double_underscore :: "string \<Rightarrow> bool" where
  "double_underscore (a # b # cs) =
     ((a = CHR ''_'' \<and> b = CHR ''_'') \<or> double_underscore (b # cs))"
| "double_underscore _ = False"

text \<open>
  The default of \<open>sys.get_int_max_str_digits()\<close> (CPython 3.11 and later): a decimal
  string with more digits than this is refused.
\<close>

definition int_max_str_digits :: nat where
  "int_max_str_digits = 4300"

text \<open>
  \<open>int(s)\<close> for a string, base 10: optional surrounding whitespace, an optional sign, then
  digits, where single underscores may stand between digits. Everything else raises
  \<open>ValueError\<close>.
\<close>

definition int_of_string :: "string \<Rightarrow> exn + int" where
  "int_of_string s =
     (let s1 = dropWhile is_space s;
          neg = (s1 \<noteq> [] \<and> hd s1 = CHR ''-'');
          s2 = (if s1 \<noteq> [] \<and> (hd s1 = CHR ''+'' \<or> hd s1 = CHR ''-'') then tl s1 else s1);
          body = takeWhile (\<lambda>c. is_digit c \<or> c = CHR ''_'') s2;
          rest = dropWhile (\<lambda>c. is_digit c \<or> c = CHR ''_'') s2;
          ds = filter is_digit body
      in if body = [] \<or> hd body = CHR ''_'' \<or> last body = CHR ''_''
            \<or> double_underscore body \<or> dropWhile is_space rest \<noteq> []
            \<or> int_max_str_digits < length ds
         then Inl ValueError
         else Inr (if neg then - int (nat_of_digits ds) else int (nat_of_digits ds)))"

fun py_int :: "cell \<Rightarrow> exn + int" where
  "py_int (CStr s) = int_of_string s"
| "py_int (CInt i) = Inr i"
| "py_int CNone = Inl TypeError"

section \<open>seller.py: the pure functions\<close>

subsection \<open>\<open>price_conversion\<close>\<close>

text \<open>\<open>s.split(sep)\<close> for a one-character separator: the fields between the separators.\<close>

fun split_on :: "char \<Rightarrow> string \<Rightarrow> string list" where
  "split_on sep [] = [[]]"
| "split_on sep (c # cs) =
     (if c = sep then [] # split_on sep cs
      else (case split_on sep cs of
              [] \<Rightarrow> [[c]]
            | p # ps \<Rightarrow> (c # p) # ps))"

text \<open>\<open>xs[0]\<close>\<close>

definition index0 :: "'a list \<Rightarrow> exn + 'a" where
  "index0 xs = (case xs of [] \<Rightarrow> Inl IndexError | x # _ \<Rightarrow> Inr x)"

text \<open>\<open>re.sub("[^0-9]", "", s)\<close>: every character outside \<open>0-9\<close> is replaced by nothing.\<close>

fun re_sub_non_digits :: "string \<Rightarrow> string" where
  "re_sub_non_digits [] = []"
| "re_sub_non_digits (c # cs) =
     (if is_digit c then c # re_sub_non_digits cs else re_sub_non_digits cs)"

text \<open>\<open>return re.sub("[^0-9]", "", price.split(".")[0])\<close>\<close>

definition price_conversion :: "string \<Rightarrow> exn + string" where
  "price_conversion price =
     (case index0 (split_on (CHR ''.'') price) of
        Inl e \<Rightarrow> Inl e
      | Inr p \<Rightarrow> Inr (re_sub_non_digits p))"

text \<open>
  The call \<open>price_conversion(watch.get(...))\<close> on a cell: only a string has \<open>split\<close>.
\<close>

fun price_conversion_cell :: "cell \<Rightarrow> exn + string" where
  "price_conversion_cell (CStr s) = price_conversion s"
| "price_conversion_cell (CInt i) = Inl AttributeError"
| "price_conversion_cell CNone = Inl AttributeError"

subsection \<open>\<open>divide\<close>\<close>

text \<open>
  The loop \<open>for i in range(0, len(lst), n): yield lst[i: i + n]\<close> for a positive step,
  from index \<open>i\<close> on.
\<close>

function divide_from :: "'a list \<Rightarrow> nat \<Rightarrow> nat \<Rightarrow> 'a list list" where
  "divide_from lst n i =
     (if n = 0 \<or> length lst \<le> i then []
      else take n (drop i lst) # divide_from lst n (i + n))"
  by pat_completeness auto
termination
  by (relation "measure (\<lambda>(lst, n, i). length lst - i)") auto

declare divide_from.simps [simp del]

text \<open>
  \<open>list(divide(lst, n))\<close>, the generator run to its end, as every caller does:
  \<open>range\<close> raises \<open>ValueError\<close> for step 0 and is empty for a negative step.
\<close>

definition divide :: "'a list \<Rightarrow> int \<Rightarrow> exn + 'a list list" where
  "divide lst n =
     (if n = 0 then Inl ValueError
      else if n < 0 then Inr []
      else Inr (divide_from lst (nat n) 0))"

subsection \<open>\<open>create_stocks\<close> and \<open>create_prices\<close>\<close>

text \<open>
  The quantity rule of both \<open>create_stocks\<close>:
  \<^verbatim>\<open>
  count = str(watch.get(quantity))
  if count == ">10": stock = 100
  elif count == "1": stock = 0
  else: stock = int(watch.get(quantity))
  \<close>
\<close>

definition stock_of :: "cell \<Rightarrow> exn + int" where
  "stock_of q =
     (let count = py_str q
      in if count = ''>10'' then Inr 100
         else if count = ''1'' then Inr 0
         else py_int q)"

text \<open>
  The first loop of both \<open>create_stocks\<close>, which differ only in the dictionary \<open>mk\<close> they
  append. The state is the list \<open>stocks\<close> and the caller's list \<open>offer_ids\<close>, which
  \<open>offer_ids.remove\<close> changes in place (it deletes the first equal element).
\<close>

fun stocks_loop ::
  "(string \<Rightarrow> int \<Rightarrow> 'a) \<Rightarrow> row list \<Rightarrow> 'a list \<Rightarrow> string list \<Rightarrow> exn + ('a list \<times> string list)"
where
  "stocks_loop mk [] stocks offer_ids = Inr (stocks, offer_ids)"
| "stocks_loop mk (watch # rest) stocks offer_ids =
     (if py_str (Kod watch) \<in> set offer_ids then
        (case stock_of (Kolichestvo watch) of
           Inl e \<Rightarrow> Inl e
         | Inr stock \<Rightarrow>
             stocks_loop mk rest (stocks @ [mk (py_str (Kod watch)) stock])
               (remove1 (py_str (Kod watch)) offer_ids))
      else stocks_loop mk rest stocks offer_ids)"

text \<open>
  The whole function: the first loop, then one zero entry for each identifier left in
  \<open>offer_ids\<close>. The result is the returned list and the final content of the caller's
  \<open>offer_ids\<close>.
\<close>

definition create_stocks_with ::
  "(string \<Rightarrow> int \<Rightarrow> 'a) \<Rightarrow> row list \<Rightarrow> string list \<Rightarrow> exn + ('a list \<times> string list)"
where
  "create_stocks_with mk watch_remnants offer_ids =
     (case stocks_loop mk watch_remnants [] offer_ids of
        Inl e \<Rightarrow> Inl e
      | Inr (stocks, offer_ids') \<Rightarrow>
          Inr (stocks @ map (\<lambda>offer_id. mk offer_id 0) offer_ids', offer_ids'))"

record ozon_stock =
  offer_id :: string
  stock :: int

definition create_stocks ::
  "row list \<Rightarrow> string list \<Rightarrow> exn + (ozon_stock list \<times> string list)"
where
  "create_stocks = create_stocks_with (\<lambda>c s. \<lparr>offer_id = c, stock = s\<rparr>)"

record ozon_price =
  auto_action_enabled :: string
  currency_code :: string
  price_offer_id :: string
  old_price :: string
  price :: string

text \<open>
  The loop of \<open>create_prices\<close>; \<open>offer_ids\<close> is only read, and handed back as it is.
\<close>

fun prices_loop ::
  "(row \<Rightarrow> exn + 'a) \<Rightarrow> row list \<Rightarrow> 'a list \<Rightarrow> string list \<Rightarrow> exn + ('a list \<times> string list)"
where
  "prices_loop mk [] prices offer_ids = Inr (prices, offer_ids)"
| "prices_loop mk (watch # rest) prices offer_ids =
     (if py_str (Kod watch) \<in> set offer_ids then
        (case mk watch of
           Inl e \<Rightarrow> Inl e
         | Inr p \<Rightarrow> prices_loop mk rest (prices @ [p]) offer_ids)
      else prices_loop mk rest prices offer_ids)"

definition ozon_price_of :: "row \<Rightarrow> exn + ozon_price" where
  "ozon_price_of watch =
     (case price_conversion_cell (Tsena watch) of
        Inl e \<Rightarrow> Inl e
      | Inr p \<Rightarrow>
          Inr \<lparr>auto_action_enabled = ''UNKNOWN'', currency_code = ''RUB'',
               price_offer_id = py_str (Kod watch), old_price = ''0'', price = p\<rparr>)"

definition create_prices ::
  "row list \<Rightarrow> string list \<Rightarrow> exn + (ozon_price list \<times> string list)"
where
  "create_prices watch_remnants offer_ids = prices_loop ozon_price_of watch_remnants [] offer_ids"

section \<open>market.py: the pure functions\<close>

text \<open>
  One entry of \<open>skus\<close>: \<open>{"sku", "warehouseId", "items": [{"count", "type", "updatedAt"}]}\<close>
  (\<open>item_type\<close> is the key \<open>type\<close>).
\<close>

record market_item =
  count :: int
  item_type :: string
  updatedAt :: string

record market_stock =
  sku :: string
  warehouseId :: string
  items :: "market_item list"

text \<open>
  \<open>create_stocks\<close> of market.py. Its first statement reads the clock,
  \<open>date = str(datetime.datetime.utcnow().replace(microsecond=0).isoformat() + "Z")\<close>;
  the string read is the argument \<open>date\<close>.
\<close>

definition market_create_stocks ::
  "string \<Rightarrow> row list \<Rightarrow> string list \<Rightarrow> string \<Rightarrow> exn + (market_stock list \<times> string list)"
where
  "market_create_stocks date watch_remnants offer_ids warehouse_id =
     create_stocks_with
       (\<lambda>c s. \<lparr>sku = c, warehouseId = warehouse_id,
                 items = [\<lparr>count = s, item_type = ''FIT'', updatedAt = date\<rparr>]\<rparr>)
       watch_remnants offer_ids"

text \<open>
  One entry of \<open>offers\<close>: \<open>{"id", "price": {"value", "currencyId"}}\<close>
  (\<open>price_id\<close> is the key \<open>id\<close>, \<open>price_obj\<close> the key \<open>price\<close>, \<open>price_value\<close> the key
  \<open>value\<close>).
\<close>

record market_price_obj =
  price_value :: int
  currencyId :: string

record market_price =
  price_id :: string
  price_obj :: market_price_obj

definition market_price_of :: "row \<Rightarrow> exn + market_price" where
  "market_price_of watch =
     (case price_conversion_cell (Tsena watch) of
        Inl e \<Rightarrow> Inl e
      | Inr p \<Rightarrow>
          (case int_of_string p of
             Inl e \<Rightarrow> Inl e
           | Inr v \<Rightarrow>
               Inr \<lparr>price_id = py_str (Kod watch),
                    price_obj = \<lparr>price_value = v, currencyId = ''RUR''\<rparr>\<rparr>))"

definition market_create_prices ::
  "row list \<Rightarrow> string list \<Rightarrow> exn + (market_price list \<times> string list)"
where
  "market_create_prices watch_remnants offer_ids =
     prices_loop market_price_of watch_remnants [] offer_ids"

section \<open>The orchestrators\<close>

text \<open>
  What the three \<open>except\<close> clauses of both \<open>main\<close> print: the timeout message, the
  error with the connection message, the error with \<open>ERROR_2\<close>.
\<close>

datatype report = TimeoutMsg | ConnectionMsg exn | Error2Msg exn

definition handler :: "exn \<Rightarrow> report" where
  "handler e =
     (if e = ReadTimeout then TimeoutMsg
      else if e = ConnectionError \<or> e = ConnectTimeout then ConnectionMsg e
      else Error2Msg e)"

text \<open>
  The calls a run makes, in order: the client functions with the client or campaign
  identifier and the batch they are given, the download, and what is printed.
\<close>

datatype ('s, 'p) event =
    GetOfferIds string
  | DownloadStock
  | UpdateStocks string "'s list"
  | UpdatePrice string "'p list"
  | Print report

text \<open>
  The outside of the program: how each client call and the download answer (an
  exception, or the value; the listing loops of \<open>get_offer_ids\<close> are part of this
  answer), and the \<open>n\<close>-th reading of the clock in a run.
\<close>

record ('s, 'p) world =
  get_offer_ids :: "string \<Rightarrow> exn + string list"
  download_stock :: "exn + row list"
  update_stocks :: "string \<Rightarrow> 's list \<Rightarrow> exn + unit"
  update_price :: "string \<Rightarrow> 'p list \<Rightarrow> exn + unit"
  utcnow :: "nat \<Rightarrow> string"

text \<open>
  A computation: the calls made so far, and an exception or a value. An exception ends
  the sequence.
\<close>

type_synonym ('ev, 'a) io = "'ev list \<times> (exn + 'a)"

definition io_bind :: "('ev, 'a) io \<Rightarrow> ('a \<Rightarrow> ('ev, 'b) io) \<Rightarrow> ('ev, 'b) io" where
  "io_bind m f =
     (case m of
        (t, Inl e) \<Rightarrow> (t, Inl e)
      | (t, Inr a) \<Rightarrow> (case f a of (t', r) \<Rightarrow> (t @ t', r)))"

definition io_pure :: "exn + 'a \<Rightarrow> ('ev, 'a) io" where
  "io_pure r = ([], r)"

definition io_call :: "'ev \<Rightarrow> exn + 'a \<Rightarrow> ('ev, 'a) io" where
  "io_call ev r = ([ev], r)"

text \<open>\<open>for x in xs: f(x)\<close>\<close>

fun io_for_each :: "('a \<Rightarrow> ('ev, unit) io) \<Rightarrow> 'a list \<Rightarrow> ('ev, unit) io" where
  "io_for_each f [] = ([], Inr ())"
| "io_for_each f (x # xs) = io_bind (f x) (\<lambda>_. io_for_each f xs)"

text \<open>
  \<open>try: ... except ReadTimeout: ... except ConnectionError: ... except Exception: ...\<close>:
  every exception of the body is caught and reported. The second component of the result
  is the exception that leaves the function, if any.
\<close>

definition try_except ::
  "(('s, 'p) event, unit) io \<Rightarrow> ('s, 'p) event list \<times> exn option" where
  "try_except m =
     (case m of
        (t, Inl e) \<Rightarrow> (t @ [Print (handler e)], None)
      | (t, Inr _) \<Rightarrow> (t, None))"

subsection \<open>seller.py\<close>

text \<open>
  \<open>main\<close> of seller.py, after the environment is read. The list \<open>offer_ids\<close> that
  \<open>create_prices\<close> receives is the one \<open>create_stocks\<close> has changed.
\<close>

definition seller_main ::
  "(ozon_stock, ozon_price) world \<Rightarrow> string \<Rightarrow> (ozon_stock, ozon_price) event list \<times> exn option"
where
  "seller_main w client_id =
     try_except
      (io_bind (io_call (GetOfferIds client_id) (get_offer_ids w client_id)) (\<lambda>offer_ids.
       io_bind (io_call DownloadStock (download_stock w)) (\<lambda>watch_remnants.
       io_bind (io_pure (create_stocks watch_remnants offer_ids)) (\<lambda>(stocks, offer_ids).
       io_bind (io_pure (divide stocks 100)) (\<lambda>batches.
       io_bind (io_for_each (\<lambda>some_stock.
                  io_call (UpdateStocks client_id some_stock)
                    (update_stocks w client_id some_stock)) batches) (\<lambda>_.
       io_bind (io_pure (create_prices watch_remnants offer_ids)) (\<lambda>(prices, offer_ids).
       io_bind (io_pure (divide prices 900)) (\<lambda>batches.
       io_for_each (\<lambda>some_price.
                  io_call (UpdatePrice client_id some_price)
                    (update_price w client_id some_price)) batches))))))))"

text \<open>The body of \<open>upload_prices\<close> of seller.py, run to its end.\<close>

definition seller_upload_prices ::
  "(ozon_stock, ozon_price) world \<Rightarrow> row list \<Rightarrow> string
     \<Rightarrow> ((ozon_stock, ozon_price) event, ozon_price list) io"
where
  "seller_upload_prices w watch_remnants client_id =
     io_bind (io_call (GetOfferIds client_id) (get_offer_ids w client_id)) (\<lambda>offer_ids.
     io_bind (io_pure (create_prices watch_remnants offer_ids)) (\<lambda>(prices, offer_ids).
     io_bind (io_pure (divide prices 1000)) (\<lambda>batches.
     io_bind (io_for_each (\<lambda>some_price.
                io_call (UpdatePrice client_id some_price)
                  (update_price w client_id some_price)) batches) (\<lambda>_.
     io_pure (Inr prices)))))"

text \<open>The body of \<open>upload_stocks\<close> of seller.py, run to its end.\<close>

definition seller_upload_stocks ::
  "(ozon_stock, ozon_price) world \<Rightarrow> row list \<Rightarrow> string
     \<Rightarrow> ((ozon_stock, ozon_price) event, ozon_stock list \<times> ozon_stock list) io"
where
  "seller_upload_stocks w watch_remnants client_id =
     io_bind (io_call (GetOfferIds client_id) (get_offer_ids w client_id)) (\<lambda>offer_ids.
     io_bind (io_pure (create_stocks watch_remnants offer_ids)) (\<lambda>(stocks, offer_ids).
     io_bind (io_pure (divide stocks 100)) (\<lambda>batches.
     io_bind (io_for_each (\<lambda>some_stock.
                io_call (UpdateStocks client_id some_stock)
                  (update_stocks w client_id some_stock)) batches) (\<lambda>_.
     io_pure (Inr (filter (\<lambda>s. stock s \<noteq> 0) stocks, stocks))))))"

subsection \<open>market.py\<close>

text \<open>The body of \<open>upload_prices\<close> of market.py, run to its end.\<close>

definition market_upload_prices ::
  "(market_stock, market_price) world \<Rightarrow> row list \<Rightarrow> string
     \<Rightarrow> ((market_stock, market_price) event, market_price list) io"
where
  "market_upload_prices w watch_remnants campaign_id =
     io_bind (io_call (GetOfferIds campaign_id) (get_offer_ids w campaign_id)) (\<lambda>offer_ids.
     io_bind (io_pure (market_create_prices watch_remnants offer_ids)) (\<lambda>(prices, offer_ids).
     io_bind (io_pure (divide prices 500)) (\<lambda>batches.
     io_bind (io_for_each (\<lambda>some_prices.
                io_call (UpdatePrice campaign_id some_prices)
                  (update_price w campaign_id some_prices)) batches) (\<lambda>_.
     io_pure (Inr prices)))))"

text \<open>
  The body of \<open>upload_stocks\<close> of market.py, run to its end. \<open>stock.get("items")[0]\<close>
  is \<open>index0\<close>.
\<close>

definition market_stock_not_empty :: "market_stock \<Rightarrow> exn + bool" where
  "market_stock_not_empty s =
     (case index0 (items s) of Inl e \<Rightarrow> Inl e | Inr i \<Rightarrow> Inr (count i \<noteq> 0))"

fun filter_exn :: "('a \<Rightarrow> exn + bool) \<Rightarrow> 'a list \<Rightarrow> exn + 'a list" where
  "filter_exn p [] = Inr []"
| "filter_exn p (x # xs) =
     (case p x of
        Inl e \<Rightarrow> Inl e
      | Inr b \<Rightarrow>
          (case filter_exn p xs of
             Inl e \<Rightarrow> Inl e
           | Inr ys \<Rightarrow> Inr (if b then x # ys else ys)))"

definition market_upload_stocks ::
  "(market_stock, market_price) world \<Rightarrow> row list \<Rightarrow> string \<Rightarrow> string
     \<Rightarrow> ((market_stock, market_price) event, market_stock list \<times> market_stock list) io"
where
  "market_upload_stocks w watch_remnants campaign_id warehouse_id =
     io_bind (io_call (GetOfferIds campaign_id) (get_offer_ids w campaign_id)) (\<lambda>offer_ids.
     io_bind (io_pure (market_create_stocks (utcnow w 0) watch_remnants offer_ids warehouse_id))
       (\<lambda>(stocks, offer_ids).
     io_bind (io_pure (divide stocks 2000)) (\<lambda>batches.
     io_bind (io_for_each (\<lambda>some_stock.
                io_call (UpdateStocks campaign_id some_stock)
                  (update_stocks w campaign_id some_stock)) batches) (\<lambda>_.
     io_bind (io_pure (filter_exn market_stock_not_empty stocks)) (\<lambda>not_empty.
     io_pure (Inr (not_empty, stocks)))))))"

text \<open>
  One campaign's part of \<open>main\<close> of market.py. The statement
  \<open>upload_prices(watch_remnants, campaign_id, market_token)\<close> calls a function declared
  \<open>async def\<close> and does nothing with the result: it builds a coroutine object, and no
  statement of the body of \<open>upload_prices\<close> runs. It contributes no call.
\<close>

definition market_campaign ::
  "(market_stock, market_price) world \<Rightarrow> row list \<Rightarrow> nat \<Rightarrow> string \<Rightarrow> string
     \<Rightarrow> ((market_stock, market_price) event, unit) io"
where
  "market_campaign w watch_remnants k campaign_id warehouse_id =
     io_bind (io_call (GetOfferIds campaign_id) (get_offer_ids w campaign_id)) (\<lambda>offer_ids.
     io_bind (io_pure (market_create_stocks (utcnow w k) watch_remnants offer_ids warehouse_id))
       (\<lambda>(stocks, offer_ids).
     io_bind (io_pure (divide stocks 2000)) (\<lambda>batches.
     io_for_each (\<lambda>some_stock.
                io_call (UpdateStocks campaign_id some_stock)
                  (update_stocks w campaign_id some_stock)) batches)))"

text \<open>
  \<open>main\<close> of market.py, after the environment is read: the download stands before
  \<open>try\<close>, and one \<open>try\<close> holds the FBS campaign followed by the DBS campaign.
\<close>

definition market_main ::
  "(market_stock, market_price) world \<Rightarrow> string \<Rightarrow> string \<Rightarrow> string \<Rightarrow> string
     \<Rightarrow> (market_stock, market_price) event list \<times> exn option"
where
  "market_main w campaign_fbs_id campaign_dbs_id warehouse_fbs_id warehouse_dbs_id =
     (case download_stock w of
        Inl e \<Rightarrow> ([DownloadStock], Some e)
      | Inr watch_remnants \<Rightarrow>
          (case try_except
                  (io_bind (market_campaign w watch_remnants 0 campaign_fbs_id warehouse_fbs_id)
                     (\<lambda>_. market_campaign w watch_remnants 1 campaign_dbs_id warehouse_dbs_id))
           of (t, r) \<Rightarrow> (DownloadStock # t, r)))"


section \<open>What the specification says of the stock list\<close>

text \<open>
  These definitions follow the words of the specification, not the code: the
  identifiers of the feed, the known identifiers matched by the feed in feed order (each
  once, at its first row), the known identifiers the feed does not have in listing
  order, and the first row of an identifier.
\<close>

definition codes :: "row list \<Rightarrow> string list" where
  "codes rows = map (\<lambda>w. py_str (Kod w)) rows"

function first_occurrences :: "'a list \<Rightarrow> 'a list" where
  "first_occurrences [] = []"
| "first_occurrences (x # xs) = x # first_occurrences (removeAll x xs)"
  by pat_completeness auto
termination
  by (relation "measure length") (auto simp: less_Suc_eq_le)

definition matched_ids :: "row list \<Rightarrow> string list \<Rightarrow> string list" where
  "matched_ids rows ids = first_occurrences (filter (\<lambda>c. c \<in> set ids) (codes rows))"

definition unmatched_ids :: "row list \<Rightarrow> string list \<Rightarrow> string list" where
  "unmatched_ids rows ids = filter (\<lambda>i. i \<notin> set (codes rows)) ids"

definition first_row :: "row list \<Rightarrow> string \<Rightarrow> row option" where
  "first_row rows c = find (\<lambda>w. py_str (Kod w) = c) rows"

text \<open>
  The quantity rule in the words of the specification: \<open>">10"\<close> maps to 100, \<open>"1"\<close> maps
  to 0, anything else is the integer that \<open>int()\<close> returns for the quantity.
\<close>

definition bucketed :: "cell \<Rightarrow> int \<Rightarrow> bool" where
  "bucketed q n \<longleftrightarrow>
     (if py_str q = ''>10'' then n = 100
      else if py_str q = ''1'' then n = 0
      else py_int q = Inr n)"

text \<open>
  When the rule gives no quantity: the string is neither \<open>">10"\<close> nor \<open>"1"\<close> and
  \<open>int()\<close> raises \<open>e\<close>.
\<close>

definition quantity_refused :: "cell \<Rightarrow> exn \<Rightarrow> bool" where
  "quantity_refused q e \<longleftrightarrow>
     py_str q \<noteq> ''>10'' \<and> py_str q \<noteq> ''1'' \<and> py_int q = Inl e"

text \<open>
  The stock list the specification describes, as pairs of identifier and quantity: every
  known identifier exactly once; first the identifiers matched by the feed, in feed
  order, each with the bucketed quantity of its (first) row; then the unmatched identifiers, in
  listing order, with quantity 0.
\<close>

definition stock_list_as_specified :: "row list \<Rightarrow> string list \<Rightarrow> (string \<times> int) list \<Rightarrow> bool" where
  "stock_list_as_specified rows ids out \<longleftrightarrow>
     distinct (map fst out) \<and> set (map fst out) = set ids
     \<and> map fst out = matched_ids rows ids @ unmatched_ids rows ids
     \<and> list_all2 (\<lambda>c q. \<exists>w. first_row rows c = Some w \<and> bucketed (Kolichestvo w) q)
          (matched_ids rows ids) (map snd (take (length (matched_ids rows ids)) out))
     \<and> list_all (\<lambda>q. q = 0) (map snd (drop (length (matched_ids rows ids)) out))"

text \<open>
  The rows for which the test \<open>str(watch.get(code)) in offer_ids\<close> of the first loop of
  \<open>create_stocks\<close> holds when the loop reaches them (the list shrinks on the way).
\<close>

fun matched_rows :: "row list \<Rightarrow> string list \<Rightarrow> row list" where
  "matched_rows [] offer_ids = []"
| "matched_rows (watch # rest) offer_ids =
     (if py_str (Kod watch) \<in> set offer_ids
      then watch # matched_rows rest (remove1 (py_str (Kod watch)) offer_ids)
      else matched_rows rest offer_ids)"

section \<open>Concrete runs\<close>

text \<open>
  A world with a given listing and feed in which every upload succeeds, for the concrete
  runs below.
\<close>

definition quiet_world :: "(string \<Rightarrow> exn + string list) \<Rightarrow> (exn + row list) \<Rightarrow> ('s, 'p) world" where
  "quiet_world listing feed =
     \<lparr>get_offer_ids = listing, download_stock = feed,
      update_stocks = (\<lambda>_ _. Inr ()), update_price = (\<lambda>_ _. Inr ()),
      utcnow = (\<lambda>_. ''2024-01-01T00:00:00Z'')\<rparr>"

text \<open>
  The payload limits of the claims: a call of \<open>update_stocks\<close> carries at most
  \<open>max_stocks\<close> entries and a call of \<open>update_price\<close> at most \<open>max_prices\<close>.
\<close>


definition within_limits :: "nat \<Rightarrow> nat \<Rightarrow> ('s, 'p) event \<Rightarrow> bool" where
  "within_limits max_stocks max_prices ev =
     (case ev of
        UpdateStocks c b \<Rightarrow> length b \<le> max_stocks
      | UpdatePrice c b \<Rightarrow> length b \<le> max_prices
      | _ \<Rightarrow> True)"

text \<open>
  A feed of 901 rows with the codes \<open>"0"\<close> to \<open>"900"\<close>, and the price entries of these
  rows.
\<close>

definition feed_901 :: "row list" where
  "feed_901 = map (\<lambda>k. \<lparr>Kod = CStr (string_of_nat k), Kolichestvo = CStr ''4'',
                         Tsena = CStr ''100''\<rparr>) [0..<901]"

definition prices_901 :: "ozon_price list" where
  "prices_901 = map (\<lambda>k. \<lparr>auto_action_enabled = ''UNKNOWN'', currency_code = ''RUB'',
                           price_offer_id = string_of_nat k, old_price = ''0'',
                           price = ''100''\<rparr>) [0..<901]"

text \<open>
  A stock entry of market.py with the time stamp of its items replaced, to compare two
  runs.
\<close>


definition restamp :: "string \<Rightarrow> market_stock \<Rightarrow> market_stock" where
  "restamp d s = s\<lparr>items := map (\<lambda>i. i\<lparr>updatedAt := d\<rparr>) (items s)\<rparr>"

section \<open>Theorems\<close>

subsection \<open>\<open>int()\<close> on some strings\<close>

lemma int_of_string_4: "int_of_string ''4'' = Inr 4"
  by (simp add: int_of_string_def Let_def is_space_def is_digit_def nat_of_digits_def
      digit_val_def int_max_str_digits_def)

lemma int_of_string_minus_3: "int_of_string ''-3'' = Inr (- 3)"
  by (simp add: int_of_string_def Let_def is_space_def is_digit_def nat_of_digits_def
      digit_val_def int_max_str_digits_def)

lemma int_of_string_abc: "int_of_string ''abc'' = Inl ValueError"
  by (simp add: int_of_string_def Let_def is_space_def is_digit_def nat_of_digits_def
      digit_val_def int_max_str_digits_def)

lemma int_of_string_1_000: "int_of_string '' +1_000 '' = Inr 1000"
  by (simp add: int_of_string_def Let_def is_space_def is_digit_def nat_of_digits_def
      digit_val_def int_max_str_digits_def)

subsection \<open>\<open>price_conversion\<close>\<close>

lemma split_on_not_Nil: "split_on sep s \<noteq> []"
  by (induction s) (auto split: list.splits)

lemma split_on_first:
  "\<exists>ps. split_on sep s = takeWhile (\<lambda>c. c \<noteq> sep) s # ps"
proof (induction s)
  case Nil
  show ?case by simp
next
  case (Cons c cs)
  then obtain ps where "split_on sep cs = takeWhile (\<lambda>c. c \<noteq> sep) cs # ps"
    by blast
  then show ?case by simp
qed

lemma re_sub_non_digits_filter: "re_sub_non_digits s = filter is_digit s"
  by (induction s) simp_all

text \<open>
  C3. For every input string the price normalizer returns, without raising, the text
  before the first period with every character that is not an ASCII digit removed;
  \<open>"5'990.00"\<close> gives \<open>"5990"\<close> and \<open>"5.990.00"\<close> gives \<open>"5"\<close>.
\<close>

theorem price_conversion_first_field_digits:
  "price_conversion s = Inr (filter is_digit (takeWhile (\<lambda>c. c \<noteq> CHR ''.'') s))
   \<and> price_conversion (''5'' @ [CHR 0x27] @ ''990.00'') = Inr ''5990''
   \<and> price_conversion ''5.990.00'' = Inr ''5''"
proof -
  have gen: "price_conversion t = Inr (filter is_digit (takeWhile (\<lambda>c. c \<noteq> CHR ''.'') t))" for t
  proof -
    obtain ps where "split_on (CHR ''.'') t = takeWhile (\<lambda>c. c \<noteq> CHR ''.'') t # ps"
      using split_on_first by blast
    then show ?thesis
      by (simp add: price_conversion_def index0_def re_sub_non_digits_filter)
  qed
  have e1: "price_conversion (''5'' @ [CHR 0x27] @ ''990.00'') = Inr ''5990''"
    unfolding gen by (simp add: is_digit_def)
  have e2: "price_conversion ''5.990.00'' = Inr ''5''"
    unfolding gen by (simp add: is_digit_def)
  from gen e1 e2 show ?thesis by blast
qed

subsection \<open>\<open>divide\<close>\<close>

lemma divide_from_Nil_iff: "divide_from lst n i = [] \<longleftrightarrow> n = 0 \<or> length lst \<le> i"
  by (subst divide_from.simps) simp

lemma concat_divide_from: "0 < n \<Longrightarrow> concat (divide_from lst n i) = drop i lst"
proof (induction lst n i rule: divide_from.induct)
  case (1 lst n i)
  show ?case
  proof (cases "length lst \<le> i")
    case True
    then show ?thesis by (subst divide_from.simps) simp
  next
    case False
    with 1 have "concat (divide_from lst n (i + n)) = drop (i + n) lst" by simp
    moreover have "take n (drop i lst) @ drop (i + n) lst = drop i lst"
      by (metis add.commute append_take_drop_id drop_drop)
    ultimately show ?thesis using False 1(2)
      by (subst divide_from.simps) simp
  qed
qed

lemma length_divide_from_le: "c \<in> set (divide_from lst n i) \<Longrightarrow> length c \<le> n"
proof (induction lst n i rule: divide_from.induct)
  case (1 lst n i)
  show ?case
  proof (cases "n = 0 \<or> length lst \<le> i")
    case True
    with 1(2) show ?thesis by (subst (asm) divide_from.simps) simp
  next
    case False
    with 1(2) have "c = take n (drop i lst) \<or> c \<in> set (divide_from lst n (i + n))"
      by (subst (asm) divide_from.simps) simp
    with 1(1) False show ?thesis by auto
  qed
qed

lemma length_divide_from_butlast:
  "c \<in> set (butlast (divide_from lst n i)) \<Longrightarrow> length c = n"
proof (induction lst n i rule: divide_from.induct)
  case (1 lst n i)
  show ?case
  proof (cases "n = 0 \<or> length lst \<le> i")
    case True
    with 1(2) show ?thesis by (subst (asm) divide_from.simps) simp
  next
    case False
    have unf: "divide_from lst n i = take n (drop i lst) # divide_from lst n (i + n)"
      using False by (subst divide_from.simps) simp
    show ?thesis
    proof (cases "divide_from lst n (i + n) = []")
      case True
      with 1(2) unf show ?thesis by simp
    next
      case ne: False
      then have "i + n < length lst" by (simp add: divide_from_Nil_iff)
      with 1(2) unf ne
      have "c = take n (drop i lst) \<or> c \<in> set (butlast (divide_from lst n (i + n)))"
        by simp
      with 1(1) False \<open>i + n < length lst\<close> show ?thesis by auto
    qed
  qed
qed

text \<open>
  C5. For every list and every chunk size \<open>n > 0\<close>, \<open>divide\<close> returns chunks whose
  concatenation is the input list, every chunk has at most \<open>n\<close> elements, and every chunk
  but the last has exactly \<open>n\<close>.
\<close>

theorem divide_partitions:
  "0 < n \<Longrightarrow>
     \<exists>chunks. divide lst n = Inr chunks \<and> concat chunks = lst
       \<and> (\<forall>c \<in> set chunks. length c \<le> nat n)
       \<and> (\<forall>c \<in> set (butlast chunks). length c = nat n)"
  by (simp add: divide_def concat_divide_from length_divide_from_le length_divide_from_butlast)

theorem divide_partitions_witness:
  "(0::int) < 3 \<and> divide [1, 2, 3, 4, 5, 6, 7 :: int] 3 = Inr [[1, 2, 3], [4, 5, 6], [7]]
   \<and> concat [[1, 2, 3], [4, 5, 6], [7 :: int]] = [1, 2, 3, 4, 5, 6, 7]"
  using divide_partitions [of 3 "[1, 2, 3, 4, 5, 6, 7 :: int]"]
  by (simp add: divide_def divide_from.simps)

text \<open>
  C6. For every list, \<open>divide\<close> with chunk size 0 fails with \<open>ValueError\<close>, Python's
  exception for an argument of the right type and an unacceptable value (the exception
  \<open>range\<close> raises for a zero step); no division is attempted.
\<close>

theorem divide_zero_ValueError: "divide lst 0 = Inl ValueError"
  by (simp add: divide_def)

subsection \<open>The loop of \<open>create_stocks\<close>\<close>

lemma set_first_occurrences [simp]: "set (first_occurrences xs) = set xs"
  by (induction xs rule: first_occurrences.induct) auto

lemma distinct_first_occurrences [simp]: "distinct (first_occurrences xs)"
  by (induction xs rule: first_occurrences.induct) auto

lemma stocks_loop_acc:
  "stocks_loop mk rows acc ids =
     (case stocks_loop mk rows [] ids of
        Inl e \<Rightarrow> Inl e
      | Inr (st, rest) \<Rightarrow> Inr (acc @ st, rest))"
proof (induction rows arbitrary: acc ids)
  case Nil
  show ?case by simp
next
  case (Cons w ws)
  show ?case
  proof (cases "py_str (Kod w) \<in> set ids")
    case False
    then show ?thesis using Cons [of acc ids] by simp
  next
    case True
    show ?thesis
    proof (cases "stock_of (Kolichestvo w)")
      case (Inl e)
      with True show ?thesis by simp
    next
      case (Inr q)
      let ?ids = "remove1 (py_str (Kod w)) ids"
      let ?x = "mk (py_str (Kod w)) q"
      have "stocks_loop mk ws (acc @ [?x]) ?ids =
              (case stocks_loop mk ws [] ?ids of
                 Inl e \<Rightarrow> Inl e | Inr (st, rest) \<Rightarrow> Inr ((acc @ [?x]) @ st, rest))"
        by (rule Cons)
      moreover have "stocks_loop mk ws [?x] ?ids =
              (case stocks_loop mk ws [] ?ids of
                 Inl e \<Rightarrow> Inl e | Inr (st, rest) \<Rightarrow> Inr ([?x] @ st, rest))"
        by (rule Cons)
      ultimately show ?thesis using True Inr
        by (simp split: sum.splits prod.splits)
    qed
  qed
qed

lemma stocks_loop_step_matched:
  assumes "py_str (Kod w) \<in> set ids" "stocks_loop mk (w # ws) [] ids = Inr (st, rest)"
  obtains q st' where "stock_of (Kolichestvo w) = Inr q"
    "stocks_loop mk ws [] (remove1 (py_str (Kod w)) ids) = Inr (st', rest)"
    "st = mk (py_str (Kod w)) q # st'"
proof (cases "stock_of (Kolichestvo w)")
  case (Inl e)
  with assms show ?thesis by simp
next
  case (Inr q)
  with assms have "stocks_loop mk ws [mk (py_str (Kod w)) q] (remove1 (py_str (Kod w)) ids) = Inr (st, rest)"
    by simp
  then obtain st' where "stocks_loop mk ws [] (remove1 (py_str (Kod w)) ids) = Inr (st', rest)"
    "st = mk (py_str (Kod w)) q # st'"
    by (subst (asm) stocks_loop_acc) (auto split: sum.splits)
  with Inr that show ?thesis by blast
qed

lemma matched_ids_Cons_in:
  assumes "distinct ids" "py_str (Kod w) \<in> set ids"
  shows "matched_ids (w # ws) ids = py_str (Kod w) # matched_ids ws (remove1 (py_str (Kod w)) ids)"
proof -
  let ?c = "py_str (Kod w)"
  have "filter (\<lambda>y. ?c \<noteq> y) (filter (\<lambda>c. c \<in> set ids) (codes ws)) =
        filter (\<lambda>c. c \<in> set (remove1 ?c ids)) (codes ws)"
    unfolding filter_filter using assms(1) by (intro filter_cong refl) auto
  then have "removeAll ?c (filter (\<lambda>c. c \<in> set ids) (codes ws)) =
        filter (\<lambda>c. c \<in> set (remove1 ?c ids)) (codes ws)"
    by (simp only: removeAll_filter_not_eq)
  with assms(2) show ?thesis by (simp add: matched_ids_def codes_def)
qed

lemma matched_ids_Cons_out:
  "py_str (Kod w) \<notin> set ids \<Longrightarrow> matched_ids (w # ws) ids = matched_ids ws ids"
  by (simp add: matched_ids_def codes_def)

lemma unmatched_ids_Cons_in:
  assumes "distinct ids"
  shows "unmatched_ids (w # ws) ids = unmatched_ids ws (remove1 (py_str (Kod w)) ids)"
proof -
  have "remove1 (py_str (Kod w)) ids = filter (\<lambda>i. py_str (Kod w) \<noteq> i) ids"
    using assms by (simp add: distinct_remove1_removeAll removeAll_filter_not_eq)
  moreover have "filter (\<lambda>i. i \<notin> set (codes (w # ws))) ids =
      filter (\<lambda>i. i \<notin> set (codes ws)) (filter (\<lambda>i. py_str (Kod w) \<noteq> i) ids)"
    unfolding filter_filter by (intro filter_cong refl) (auto simp: codes_def)
  ultimately show ?thesis by (simp add: unmatched_ids_def)
qed

lemma unmatched_ids_Cons_out:
  "py_str (Kod w) \<notin> set ids \<Longrightarrow> unmatched_ids (w # ws) ids = unmatched_ids ws ids"
  unfolding unmatched_ids_def by (intro filter_cong refl) (auto simp: codes_def)

lemma set_matched_ids: "set (matched_ids rows ids) = set ids \<inter> set (codes rows)"
  by (auto simp: matched_ids_def)

lemma stocks_loop_result:
  assumes "distinct ids" "stocks_loop mk rows [] ids = Inr (st, rest)"
  shows "rest = unmatched_ids rows ids
       \<and> list_all2 (\<lambda>c s. \<exists>w q. first_row rows c = Some w
                        \<and> stock_of (Kolichestvo w) = Inr q \<and> s = mk c q)
           (matched_ids rows ids) st"
  using assms
proof (induction rows arbitrary: ids st)
  case Nil
  then show ?case by (simp add: unmatched_ids_def matched_ids_def codes_def)
next
  case (Cons w ws)
  let ?c = "py_str (Kod w)"
  show ?case
  proof (cases "?c \<in> set ids")
    case False
    with Cons.prems have run: "stocks_loop mk ws [] ids = Inr (st, rest)" by simp
    note ih = Cons.IH [OF Cons.prems(1) run]
    have "list_all2 (\<lambda>c s. \<exists>w' q. first_row (w # ws) c = Some w'
                        \<and> stock_of (Kolichestvo w') = Inr q \<and> s = mk c q)
           (matched_ids ws ids) st"
    proof (rule list.rel_mono_strong [OF conjunct2 [OF ih]])
      fix c s
      assume "c \<in> set (matched_ids ws ids)"
        and "\<exists>w q. first_row ws c = Some w \<and> stock_of (Kolichestvo w) = Inr q \<and> s = mk c q"
      moreover from this False have "?c \<noteq> c" by (auto simp: set_matched_ids)
      ultimately show "\<exists>w' q. first_row (w # ws) c = Some w'
                        \<and> stock_of (Kolichestvo w') = Inr q \<and> s = mk c q"
        by (simp add: first_row_def)
    qed
    with ih False show ?thesis
      by (simp add: matched_ids_Cons_out unmatched_ids_Cons_out)
  next
    case True
    let ?ids = "remove1 ?c ids"
    obtain q st' where q: "stock_of (Kolichestvo w) = Inr q"
      and run: "stocks_loop mk ws [] ?ids = Inr (st', rest)"
      and st: "st = mk ?c q # st'"
      using stocks_loop_step_matched [OF True Cons.prems(2)] by blast
    have d: "distinct ?ids" using Cons.prems(1) by simp
    note ih = Cons.IH [OF d run]
    have "list_all2 (\<lambda>c s. \<exists>w' q. first_row (w # ws) c = Some w'
                        \<and> stock_of (Kolichestvo w') = Inr q \<and> s = mk c q)
           (matched_ids ws ?ids) st'"
    proof (rule list.rel_mono_strong [OF conjunct2 [OF ih]])
      fix c s
      assume "c \<in> set (matched_ids ws ?ids)"
        and "\<exists>w q. first_row ws c = Some w \<and> stock_of (Kolichestvo w) = Inr q \<and> s = mk c q"
      moreover from this Cons.prems(1) have "?c \<noteq> c" by (auto simp: set_matched_ids)
      ultimately show "\<exists>w' q. first_row (w # ws) c = Some w'
                        \<and> stock_of (Kolichestvo w') = Inr q \<and> s = mk c q"
        by (simp add: first_row_def)
    qed
    moreover have "first_row (w # ws) ?c = Some w" by (simp add: first_row_def)
    ultimately show ?thesis
      using ih q st
      by (simp add: matched_ids_Cons_in [OF Cons.prems(1) True]
          unmatched_ids_Cons_in [OF Cons.prems(1)])
  qed
qed

subsection \<open>\<open>create_stocks\<close>: the returned list\<close>

lemma stock_of_bucketed: "stock_of q = Inr n \<longleftrightarrow> bucketed q n"
  by (auto simp: stock_of_def bucketed_def Let_def)

lemma stock_of_refused: "stock_of q = Inl e \<longleftrightarrow> quantity_refused q e"
  by (auto simp: stock_of_def quantity_refused_def Let_def)

lemma stocks_loop_pairs:
  "stocks_loop mk rows (map (\<lambda>(c, q). mk c q) acc) ids =
     (case stocks_loop Pair rows acc ids of
        Inl e \<Rightarrow> Inl e
      | Inr (ps, rest) \<Rightarrow> Inr (map (\<lambda>(c, q). mk c q) ps, rest))"
proof (induction rows arbitrary: acc ids)
  case Nil
  show ?case by simp
next
  case (Cons w ws)
  show ?case
  proof (cases "py_str (Kod w) \<in> set ids")
    case False
    then show ?thesis using Cons [of acc ids] by simp
  next
    case True
    show ?thesis
    proof (cases "stock_of (Kolichestvo w)")
      case (Inl e)
      with True show ?thesis by simp
    next
      case (Inr q)
      with True show ?thesis
        using Cons [of "acc @ [(py_str (Kod w), q)]" "remove1 (py_str (Kod w)) ids"]
        by simp
    qed
  qed
qed

lemma create_stocks_with_pairs:
  "create_stocks_with mk rows ids =
     (case create_stocks_with Pair rows ids of
        Inl e \<Rightarrow> Inl e
      | Inr (ps, rest) \<Rightarrow> Inr (map (\<lambda>(c, q). mk c q) ps, rest))"
  using stocks_loop_pairs [of mk rows "[]" ids]
  by (simp add: create_stocks_with_def split: sum.splits prod.splits)

lemma list_all2_pairs:
  assumes "list_all2 (\<lambda>c s. \<exists>w q. P c w q \<and> s = (c, q)) cs ps"
  shows "map fst ps = cs \<and> list_all2 (\<lambda>c q. \<exists>w. P c w q) cs (map snd ps)"
  using assms by (induction cs ps rule: list_all2_induct) auto

lemma distinct_unmatched_ids: "distinct ids \<Longrightarrow> distinct (unmatched_ids rows ids)"
  by (simp add: unmatched_ids_def)

lemma distinct_matched_ids: "distinct (matched_ids rows ids)"
  by (simp add: matched_ids_def)

lemma set_unmatched_ids: "set (unmatched_ids rows ids) = set ids - set (codes rows)"
  by (auto simp: unmatched_ids_def)

lemma create_stocks_with_Pair_specified:
  assumes "distinct ids" "create_stocks_with Pair rows ids = Inr (out, rest)"
  shows "stock_list_as_specified rows ids out \<and> rest = unmatched_ids rows ids"
proof -
  from assms(2) obtain st where run: "stocks_loop Pair rows [] ids = Inr (st, rest)"
    and out: "out = st @ map (\<lambda>i. (i, 0)) rest"
    by (auto simp: create_stocks_with_def split: sum.splits)
  from stocks_loop_result [OF assms(1) run]
  have rest: "rest = unmatched_ids rows ids"
    and all2: "list_all2 (\<lambda>c s. \<exists>w q. (first_row rows c = Some w
                  \<and> stock_of (Kolichestvo w) = Inr q) \<and> s = (c, q)) (matched_ids rows ids) st"
    by simp_all
  from list_all2_pairs [OF all2]
  have fst_st: "map fst st = matched_ids rows ids"
    and snd_st: "list_all2 (\<lambda>c q. \<exists>w. first_row rows c = Some w
                  \<and> stock_of (Kolichestvo w) = Inr q) (matched_ids rows ids) (map snd st)"
    by simp_all
  have len: "length st = length (matched_ids rows ids)"
    using fst_st by (metis length_map)
  have ids_out: "map fst out = matched_ids rows ids @ unmatched_ids rows ids"
    using fst_st rest out by (simp add: comp_def)
  have "distinct (map fst out)"
    unfolding ids_out
    using assms(1) by (auto simp: distinct_matched_ids distinct_unmatched_ids
        set_matched_ids set_unmatched_ids)
  moreover have "set (map fst out) = set ids"
    unfolding ids_out by (auto simp: set_matched_ids set_unmatched_ids)
  moreover have "take (length (matched_ids rows ids)) out = st"
    using len out by simp
  moreover have "drop (length (matched_ids rows ids)) out = map (\<lambda>i. (i, 0)) rest"
    using len out by simp
  ultimately show ?thesis
    using ids_out snd_st rest
    by (simp add: stock_list_as_specified_def list_all_iff comp_def stock_of_bucketed)
qed

lemma stocks_loop_error:
  "stocks_loop mk rows acc ids = Inl e \<Longrightarrow> \<exists>w \<in> set rows. stock_of (Kolichestvo w) = Inl e"
proof (induction rows arbitrary: acc ids)
  case Nil
  then show ?case by simp
next
  case (Cons w ws)
  then show ?case
    by (cases "stock_of (Kolichestvo w)") (auto split: if_splits)
qed

lemma create_stocks_with_error:
  "create_stocks_with mk rows ids = Inl e \<Longrightarrow>
     \<exists>w \<in> set rows. quantity_refused (Kolichestvo w) e"
  by (auto simp: create_stocks_with_def stock_of_refused [symmetric]
      split: sum.splits dest: stocks_loop_error)

lemma create_stocks_with_cases:
  assumes "distinct ids"
  shows "case create_stocks_with mk rows ids of
           Inl e \<Rightarrow> \<exists>w \<in> set rows. quantity_refused (Kolichestvo w) e
         | Inr (stocks, rest) \<Rightarrow>
             \<exists>out. stocks = map (\<lambda>(c, q). mk c q) out \<and> stock_list_as_specified rows ids out"
proof (cases "create_stocks_with mk rows ids")
  case (Inl e)
  then show ?thesis by (simp add: create_stocks_with_error)
next
  case (Inr r)
  obtain stocks rest where r: "r = (stocks, rest)" by (cases r)
  from Inr r obtain out where "create_stocks_with Pair rows ids = Inr (out, rest)"
    and "stocks = map (\<lambda>(c, q). mk c q) out"
    by (subst (asm) create_stocks_with_pairs) (auto split: sum.splits)
  with create_stocks_with_Pair_specified [OF assms] Inr r show ?thesis by auto
qed

text \<open>
  C1. For every list of supplier rows and every list of distinct known offer
  identifiers, both \<open>create_stocks\<close> either raise the exception of \<open>int()\<close> on some
  row's quantity, or return a list that holds every known identifier exactly once: the
  identifiers matched to a supplier row with their bucketed quantity (100 for \<open>">10"\<close>,
  0 for \<open>"1"\<close>, else the integer the quantity parses to), in feed order, followed by the
  unmatched identifiers with quantity 0, in their listing order.
\<close>

theorem create_stocks_every_known_id_once:
  assumes "distinct offer_ids"
  shows "(case create_stocks watch_remnants offer_ids of
            Inl e \<Rightarrow> \<exists>w \<in> set watch_remnants. quantity_refused (Kolichestvo w) e
          | Inr (stocks, rest) \<Rightarrow>
              \<exists>out. stocks = map (\<lambda>(c, q). \<lparr>offer_id = c, stock = q\<rparr>) out
                \<and> stock_list_as_specified watch_remnants offer_ids out)
       \<and> (case market_create_stocks date watch_remnants offer_ids warehouse_id of
            Inl e \<Rightarrow> \<exists>w \<in> set watch_remnants. quantity_refused (Kolichestvo w) e
          | Inr (stocks, rest) \<Rightarrow>
              \<exists>out. stocks = map (\<lambda>(c, q). \<lparr>sku = c, warehouseId = warehouse_id,
                         items = [\<lparr>count = q, item_type = ''FIT'', updatedAt = date\<rparr>]\<rparr>) out
                \<and> stock_list_as_specified watch_remnants offer_ids out)"
  unfolding create_stocks_def market_create_stocks_def
  by (intro conjI create_stocks_with_cases [OF assms])

theorem create_stocks_every_known_id_once_witness:
  "distinct [''B'', ''A'', ''Z'', ''C'']
   \<and> create_stocks
         [\<lparr>Kod = CStr ''A'', Kolichestvo = CStr ''>10'', Tsena = CStr ''100.50''\<rparr>,
          \<lparr>Kod = CStr ''C'', Kolichestvo = CStr ''4'', Tsena = CStr ''100.50''\<rparr>,
          \<lparr>Kod = CStr ''B'', Kolichestvo = CStr ''1'', Tsena = CStr ''100.50''\<rparr>]
         [''B'', ''A'', ''Z'', ''C'']
       = Inr ([\<lparr>offer_id = ''A'', stock = 100\<rparr>, \<lparr>offer_id = ''C'', stock = 4\<rparr>,
               \<lparr>offer_id = ''B'', stock = 0\<rparr>, \<lparr>offer_id = ''Z'', stock = 0\<rparr>], [''Z''])
   \<and> stock_list_as_specified
         [\<lparr>Kod = CStr ''A'', Kolichestvo = CStr ''>10'', Tsena = CStr ''100.50''\<rparr>,
          \<lparr>Kod = CStr ''C'', Kolichestvo = CStr ''4'', Tsena = CStr ''100.50''\<rparr>,
          \<lparr>Kod = CStr ''B'', Kolichestvo = CStr ''1'', Tsena = CStr ''100.50''\<rparr>]
         [''B'', ''A'', ''Z'', ''C''] [(''A'', 100), (''C'', 4), (''B'', 0), (''Z'', 0)]"
proof -
  let ?rows = "[\<lparr>Kod = CStr ''A'', Kolichestvo = CStr ''>10'', Tsena = CStr ''100.50''\<rparr>,
          \<lparr>Kod = CStr ''C'', Kolichestvo = CStr ''4'', Tsena = CStr ''100.50''\<rparr>,
          \<lparr>Kod = CStr ''B'', Kolichestvo = CStr ''1'', Tsena = CStr ''100.50''\<rparr>]"
  let ?ids = "[''B'', ''A'', ''Z'', ''C'']"
  let ?stocks = "[\<lparr>offer_id = ''A'', stock = 100\<rparr>, \<lparr>offer_id = ''C'', stock = 4\<rparr>,
               \<lparr>offer_id = ''B'', stock = 0\<rparr>, \<lparr>offer_id = ''Z'', stock = 0\<rparr>]"
  have d: "distinct ?ids" by simp
  have run: "create_stocks ?rows ?ids = Inr (?stocks, [''Z''])"
    by (simp add: create_stocks_def create_stocks_with_def stock_of_def int_of_string_4)
  from create_stocks_every_known_id_once [OF d, of ?rows, THEN conjunct1] run
  have "\<exists>out. ?stocks = map (\<lambda>(c, q). \<lparr>offer_id = c, stock = q\<rparr>) out
            \<and> stock_list_as_specified ?rows ?ids out"
    by (simp only: sum.case prod.case)
  then show ?thesis
  proof (elim exE conjE)
    fix out
    assume out: "?stocks = map (\<lambda>(c, q). \<lparr>offer_id = c, stock = q\<rparr>) out"
      and spec: "stock_list_as_specified ?rows ?ids out"
    from out have "out = [(''A'', 100), (''C'', 4), (''B'', 0), (''Z'', 0)]"
      by (auto simp: Cons_eq_map_conv)
    with d run spec show ?thesis by simp
  qed
qed

subsection \<open>\<open>create_stocks\<close>: quantities, and the caller's list\<close>

lemma stocks_loop_matched_rows:
  "stocks_loop mk rows [] ids = Inr (st, rest) \<Longrightarrow>
     list_all2 (\<lambda>w s. \<exists>q. bucketed (Kolichestvo w) q \<and> s = mk (py_str (Kod w)) q)
       (matched_rows rows ids) st"
proof (induction rows arbitrary: ids st)
  case Nil
  then show ?case by simp
next
  case (Cons w ws)
  show ?case
  proof (cases "py_str (Kod w) \<in> set ids")
    case False
    with Cons show ?thesis by simp
  next
    case True
    obtain q st' where "stock_of (Kolichestvo w) = Inr q"
      and "stocks_loop mk ws [] (remove1 (py_str (Kod w)) ids) = Inr (st', rest)"
      and "st = mk (py_str (Kod w)) q # st'"
      using stocks_loop_step_matched [OF True Cons.prems] by blast
    with Cons.IH True show ?thesis
      by (auto simp: stock_of_bucketed)
  qed
qed

lemma create_stocks_with_matched_rows:
  assumes "create_stocks_with mk rows ids = Inr (stocks, rest)"
  shows "list_all2 (\<lambda>w s. \<exists>q. bucketed (Kolichestvo w) q \<and> s = mk (py_str (Kod w)) q)
           (matched_rows rows ids) (take (length stocks - length rest) stocks)"
proof -
  from assms obtain st where run: "stocks_loop mk rows [] ids = Inr (st, rest)"
    and out: "stocks = st @ map (\<lambda>i. mk i 0) rest"
    by (auto simp: create_stocks_with_def split: sum.splits)
  from out have "take (length stocks - length rest) stocks = st" by simp
  with stocks_loop_matched_rows [OF run] show ?thesis by simp
qed

text \<open>
  C4 (amended). For every matched supplier row, in both \<open>create_stocks\<close>, the quantity
  placed in its stock update is 100 when the quantity string is \<open>">10"\<close>, 0 when it is
  \<open>"1"\<close>, and otherwise the integer that \<open>int()\<close> returns for the quantity. Nothing
  makes that integer non-negative.
\<close>

theorem matched_row_quantity:
  "(create_stocks watch_remnants offer_ids = Inr (stocks, rest) \<longrightarrow>
      list_all2 (\<lambda>w s. offer_id s = py_str (Kod w) \<and> bucketed (Kolichestvo w) (stock s))
        (matched_rows watch_remnants offer_ids) (take (length stocks - length rest) stocks))
   \<and> (market_create_stocks date watch_remnants offer_ids warehouse_id = Inr (mstocks, mrest) \<longrightarrow>
      list_all2 (\<lambda>w s. sku s = py_str (Kod w)
                    \<and> (\<exists>q. bucketed (Kolichestvo w) q
                          \<and> items s = [\<lparr>count = q, item_type = ''FIT'', updatedAt = date\<rparr>]))
        (matched_rows watch_remnants offer_ids) (take (length mstocks - length mrest) mstocks))"
proof (intro conjI impI)
  assume "create_stocks watch_remnants offer_ids = Inr (stocks, rest)"
  then have "list_all2 (\<lambda>w s. \<exists>q. bucketed (Kolichestvo w) q
                 \<and> s = \<lparr>offer_id = py_str (Kod w), stock = q\<rparr>)
        (matched_rows watch_remnants offer_ids) (take (length stocks - length rest) stocks)"
    unfolding create_stocks_def by (rule create_stocks_with_matched_rows)
  then show "list_all2 (\<lambda>w s. offer_id s = py_str (Kod w) \<and> bucketed (Kolichestvo w) (stock s))
        (matched_rows watch_remnants offer_ids) (take (length stocks - length rest) stocks)"
    by (rule list_all2_mono) auto
next
  assume "market_create_stocks date watch_remnants offer_ids warehouse_id = Inr (mstocks, mrest)"
  then have "list_all2 (\<lambda>w s. \<exists>q. bucketed (Kolichestvo w) q
                 \<and> s = \<lparr>sku = py_str (Kod w), warehouseId = warehouse_id,
                        items = [\<lparr>count = q, item_type = ''FIT'', updatedAt = date\<rparr>]\<rparr>)
        (matched_rows watch_remnants offer_ids) (take (length mstocks - length mrest) mstocks)"
    unfolding market_create_stocks_def by (rule create_stocks_with_matched_rows)
  then show "list_all2 (\<lambda>w s. sku s = py_str (Kod w)
                    \<and> (\<exists>q. bucketed (Kolichestvo w) q
                          \<and> items s = [\<lparr>count = q, item_type = ''FIT'', updatedAt = date\<rparr>]))
        (matched_rows watch_remnants offer_ids) (take (length mstocks - length mrest) mstocks)"
    by (rule list_all2_mono) auto
qed

lemma create_stocks_negative:
  "create_stocks [\<lparr>Kod = CStr ''A'', Kolichestvo = CStr ''-3'', Tsena = CStr ''100''\<rparr>] [''A'']
     = Inr ([\<lparr>offer_id = ''A'', stock = - 3\<rparr>], [])"
  by (simp add: create_stocks_def create_stocks_with_def stock_of_def int_of_string_minus_3)

text \<open>
  The claim C4 as stated fails: the quantity \<open>"-3"\<close> of a matched row gives the stock -3.
\<close>

theorem quantity_non_negative_counterexample:
  "\<not> (\<forall>watch_remnants offer_ids stocks rest.
        create_stocks watch_remnants offer_ids = Inr (stocks, rest) \<longrightarrow>
        (\<forall>s \<in> set stocks. 0 \<le> stock s))"
proof
  assume "\<forall>watch_remnants offer_ids stocks rest.
        create_stocks watch_remnants offer_ids = Inr (stocks, rest) \<longrightarrow>
        (\<forall>s \<in> set stocks. 0 \<le> stock s)"
  with create_stocks_negative
  have "\<forall>s \<in> set [\<lparr>offer_id = ''A'', stock = - 3\<rparr>]. 0 \<le> stock s" by blast
  then show False by simp
qed

theorem matched_row_quantity_witness:
  "create_stocks
     [\<lparr>Kod = CStr ''A'', Kolichestvo = CStr ''>10'', Tsena = CStr ''1''\<rparr>,
      \<lparr>Kod = CStr ''B'', Kolichestvo = CStr ''1'', Tsena = CStr ''1''\<rparr>,
      \<lparr>Kod = CStr ''C'', Kolichestvo = CStr ''4'', Tsena = CStr ''1''\<rparr>,
      \<lparr>Kod = CInt 7, Kolichestvo = CInt 1, Tsena = CStr ''1''\<rparr>,
      \<lparr>Kod = CStr ''E'', Kolichestvo = CStr ''9'', Tsena = CStr ''1''\<rparr>]
     [''A'', ''B'', ''C'', ''7'', ''Z'']
   = Inr ([\<lparr>offer_id = ''A'', stock = 100\<rparr>, \<lparr>offer_id = ''B'', stock = 0\<rparr>,
           \<lparr>offer_id = ''C'', stock = 4\<rparr>, \<lparr>offer_id = ''7'', stock = 0\<rparr>,
           \<lparr>offer_id = ''Z'', stock = 0\<rparr>], [''Z''])
   \<and> list_all2 (\<lambda>w s. offer_id s = py_str (Kod w) \<and> bucketed (Kolichestvo w) (stock s))
       [\<lparr>Kod = CStr ''A'', Kolichestvo = CStr ''>10'', Tsena = CStr ''1''\<rparr>,
        \<lparr>Kod = CStr ''B'', Kolichestvo = CStr ''1'', Tsena = CStr ''1''\<rparr>,
        \<lparr>Kod = CStr ''C'', Kolichestvo = CStr ''4'', Tsena = CStr ''1''\<rparr>,
        \<lparr>Kod = CInt 7, Kolichestvo = CInt 1, Tsena = CStr ''1''\<rparr>]
       [\<lparr>offer_id = ''A'', stock = 100\<rparr>, \<lparr>offer_id = ''B'', stock = 0\<rparr>,
        \<lparr>offer_id = ''C'', stock = 4\<rparr>, \<lparr>offer_id = ''7'', stock = 0\<rparr>]"
proof -
  let ?rows = "[\<lparr>Kod = CStr ''A'', Kolichestvo = CStr ''>10'', Tsena = CStr ''1''\<rparr>,
      \<lparr>Kod = CStr ''B'', Kolichestvo = CStr ''1'', Tsena = CStr ''1''\<rparr>,
      \<lparr>Kod = CStr ''C'', Kolichestvo = CStr ''4'', Tsena = CStr ''1''\<rparr>,
      \<lparr>Kod = CInt 7, Kolichestvo = CInt 1, Tsena = CStr ''1''\<rparr>,
      \<lparr>Kod = CStr ''E'', Kolichestvo = CStr ''9'', Tsena = CStr ''1''\<rparr>]"
  let ?ids = "[''A'', ''B'', ''C'', ''7'', ''Z'']"
  let ?out = "[\<lparr>offer_id = ''A'', stock = 100\<rparr>, \<lparr>offer_id = ''B'', stock = 0\<rparr>,
           \<lparr>offer_id = ''C'', stock = 4\<rparr>, \<lparr>offer_id = ''7'', stock = 0\<rparr>,
           \<lparr>offer_id = ''Z'', stock = 0\<rparr>]"
  have s7: "string_of_int 7 = ''7''" "string_of_int 1 = ''1''"
    by (simp_all add: string_of_int_def string_of_nat.simps digit_char_def)
  have run: "create_stocks ?rows ?ids = Inr (?out, [''Z''])"
    by (simp add: create_stocks_def create_stocks_with_def stock_of_def int_of_string_4 s7)
  have m: "matched_rows ?rows ?ids = butlast ?rows"
    by (simp add: s7)
  from matched_row_quantity [THEN conjunct1, rule_format, OF run] run m
  show ?thesis by simp
qed

lemma prices_loop_ids:
  "prices_loop mk rows acc ids = Inr (ps, ids') \<Longrightarrow> ids' = ids"
proof (induction rows arbitrary: acc)
  case Nil
  then show ?case by simp
next
  case (Cons w ws)
  then show ?case
    by (cases "mk w") (auto split: if_splits)
qed

lemma create_stocks_with_rest:
  assumes "distinct ids" "create_stocks_with mk rows ids = Inr (stocks, rest)"
  shows "rest = unmatched_ids rows ids"
proof -
  from assms(2) obtain st where "stocks_loop mk rows [] ids = Inr (st, rest)"
    by (auto simp: create_stocks_with_def split: sum.splits)
  from stocks_loop_result [OF assms(1) this] show ?thesis by simp
qed

text \<open>
  C10 (amended). When the identifiers of \<open>offer_ids\<close> are distinct, after either
  \<open>create_stocks\<close> returns the caller's \<open>offer_ids\<close> holds exactly the identifiers that
  matched no supplier row, in their original order; both \<open>create_prices\<close> leave
  \<open>offer_ids\<close> as it was.
\<close>

theorem offer_ids_after_call:
  assumes "distinct offer_ids"
  shows "(create_stocks watch_remnants offer_ids = Inr (stocks, rest) \<longrightarrow>
            rest = unmatched_ids watch_remnants offer_ids)
       \<and> (market_create_stocks date watch_remnants offer_ids warehouse_id = Inr (mstocks, mrest) \<longrightarrow>
            mrest = unmatched_ids watch_remnants offer_ids)
       \<and> (create_prices watch_remnants offer_ids = Inr (prices, ids') \<longrightarrow> ids' = offer_ids)
       \<and> (market_create_prices watch_remnants offer_ids = Inr (mprices, ids'') \<longrightarrow>
            ids'' = offer_ids)"
  using assms
  by (auto simp: create_stocks_def market_create_stocks_def create_prices_def
      market_create_prices_def dest: create_stocks_with_rest prices_loop_ids)

lemma create_stocks_duplicate:
  "create_stocks [\<lparr>Kod = CStr ''A'', Kolichestvo = CStr ''4'', Tsena = CStr ''100''\<rparr>]
     [''A'', ''A'']
     = Inr ([\<lparr>offer_id = ''A'', stock = 4\<rparr>, \<lparr>offer_id = ''A'', stock = 0\<rparr>], [''A''])"
  by (simp add: create_stocks_def create_stocks_with_def stock_of_def int_of_string_4)

text \<open>
  The claim C10 as stated fails for a listing that repeats an identifier: \<open>remove\<close>
  deletes one occurrence, and the other stays although the identifier matched a row.
\<close>

theorem offer_ids_after_call_counterexample:
  "\<not> (\<forall>watch_remnants offer_ids stocks rest.
        create_stocks watch_remnants offer_ids = Inr (stocks, rest) \<longrightarrow>
        rest = filter (\<lambda>i. i \<notin> set (map (\<lambda>w. py_str (Kod w)) watch_remnants)) offer_ids)"
proof
  assume "\<forall>watch_remnants offer_ids stocks rest.
        create_stocks watch_remnants offer_ids = Inr (stocks, rest) \<longrightarrow>
        rest = filter (\<lambda>i. i \<notin> set (map (\<lambda>w. py_str (Kod w)) watch_remnants)) offer_ids"
  with create_stocks_duplicate
  have "[''A''] = filter (\<lambda>i. i \<notin> set (map (\<lambda>w. py_str (Kod w))
            [\<lparr>Kod = CStr ''A'', Kolichestvo = CStr ''4'', Tsena = CStr ''100''\<rparr>])) [''A'', ''A'']"
    by blast
  then show False by simp
qed

theorem offer_ids_after_call_witness:
  "distinct [''A'', ''B'']
   \<and> create_stocks [\<lparr>Kod = CStr ''A'', Kolichestvo = CStr ''4'', Tsena = CStr ''100''\<rparr>]
        [''A'', ''B'']
       = Inr ([\<lparr>offer_id = ''A'', stock = 4\<rparr>, \<lparr>offer_id = ''B'', stock = 0\<rparr>], [''B''])
   \<and> [''B''] = unmatched_ids [\<lparr>Kod = CStr ''A'', Kolichestvo = CStr ''4'', Tsena = CStr ''100''\<rparr>]
        [''A'', ''B'']"
proof -
  let ?rows = "[\<lparr>Kod = CStr ''A'', Kolichestvo = CStr ''4'', Tsena = CStr ''100''\<rparr>]"
  have d: "distinct [''A'', ''B'']" by simp
  have run: "create_stocks ?rows [''A'', ''B'']
       = Inr ([\<lparr>offer_id = ''A'', stock = 4\<rparr>, \<lparr>offer_id = ''B'', stock = 0\<rparr>], [''B''])"
    by (simp add: create_stocks_def create_stocks_with_def stock_of_def int_of_string_4)
  from offer_ids_after_call [OF d, THEN conjunct1, rule_format, OF run] d run
  show ?thesis by simp
qed

subsection \<open>The runs of \<open>main\<close>\<close>


lemma prices_loop_no_match:
  "\<forall>w \<in> set rows. py_str (Kod w) \<notin> set ids \<Longrightarrow> prices_loop mk rows acc ids = Inr (acc, ids)"
  by (induction rows arbitrary: acc) auto

lemma prices_after_stocks_empty:
  assumes "distinct ids" "create_stocks_with mk rows ids = Inr (stocks, rest)"
  shows "prices_loop mk' rows [] rest = Inr ([], rest)"
proof -
  have "rest = unmatched_ids rows ids"
    using create_stocks_with_rest [OF assms] .
  then have "\<forall>w \<in> set rows. py_str (Kod w) \<notin> set rest"
    by (auto simp: unmatched_ids_def codes_def)
  then show ?thesis by (rule prices_loop_no_match)
qed

lemma divide_Nil: "n \<noteq> 0 \<Longrightarrow> divide [] n = Inr []"
  by (simp add: divide_def divide_from.simps)

lemma all_io_bind:
  "list_all P (fst m) \<Longrightarrow> (\<And>a. snd m = Inr a \<Longrightarrow> list_all P (fst (f a)))
     \<Longrightarrow> list_all P (fst (io_bind m f))"
  by (cases m; cases "snd m") (auto simp: io_bind_def split: prod.splits)

lemma all_io_call: "P ev \<Longrightarrow> list_all P (fst (io_call ev r))"
  by (simp add: io_call_def)

lemma all_io_pure: "list_all P (fst (io_pure r))"
  by (simp add: io_pure_def)

lemma all_io_for_each:
  "(\<And>x. x \<in> set xs \<Longrightarrow> list_all P (fst (f x))) \<Longrightarrow> list_all P (fst (io_for_each f xs))"
  by (induction xs) (auto intro: all_io_bind)

lemma all_try_except:
  "list_all P (fst m) \<Longrightarrow> (\<And>r. P (Print r)) \<Longrightarrow> list_all P (fst (try_except m))"
  by (cases m; cases "snd m") (auto simp: try_except_def)

lemma all_case_prod:
  "(\<And>x y. a = (x, y) \<Longrightarrow> list_all P (fst (f x y))) \<Longrightarrow> list_all P (fst (case_prod f a))"
  by (cases a) simp

lemma seller_main_pushes_no_price:
  assumes "get_offer_ids w client_id = Inr ids" "distinct ids"
  shows "list_all (\<lambda>ev. \<forall>c b. ev \<noteq> UpdatePrice c b) (fst (seller_main w client_id))"
  unfolding seller_main_def
proof (intro all_try_except all_io_bind all_io_call all_io_pure all_io_for_each all_case_prod)
  fix offer_ids watch_remnants sr stocks rest pr prices rest' pbatches some_price
  assume listing: "snd (io_call (GetOfferIds client_id :: (ozon_stock, ozon_price) event)
            (get_offer_ids w client_id)) = Inr offer_ids"
    and st: "snd (io_pure (create_stocks watch_remnants offer_ids)
            :: ((ozon_stock, ozon_price) event, ozon_stock list \<times> string list) io) = Inr sr"
      "sr = (stocks, rest)"
    and pr: "snd (io_pure (create_prices watch_remnants rest)
            :: ((ozon_stock, ozon_price) event, ozon_price list \<times> string list) io) = Inr pr"
      "pr = (prices, rest')"
    and dv: "snd (io_pure (divide prices 900)
            :: ((ozon_stock, ozon_price) event, ozon_price list list) io) = Inr pbatches"
    and mem: "some_price \<in> set pbatches"
  from listing assms(1) have "offer_ids = ids" by (simp add: io_call_def)
  with st have "create_stocks_with (\<lambda>c s. \<lparr>offer_id = c, stock = s\<rparr>) watch_remnants ids
                  = Inr (stocks, rest)"
    by (simp add: io_pure_def create_stocks_def)
  from prices_after_stocks_empty [OF assms(2) this]
  have "create_prices watch_remnants rest = Inr ([], rest)"
    by (simp add: create_prices_def)
  with pr have "prices = []" by (simp add: io_pure_def)
  with dv have "pbatches = []" by (simp add: io_pure_def divide_Nil)
  with mem have False by simp
  then show "\<forall>c b. UpdatePrice client_id some_price \<noteq> (UpdatePrice c b :: (ozon_stock, ozon_price) event)" ..
qed simp_all

text \<open>
  C2. \<open>main\<close> of seller.py builds the price list from the list \<open>offer_ids\<close> that
  \<open>create_stocks\<close> has just emptied of every matched identifier (see
  \<open>seller_main_pushes_no_price\<close>). With the listing \<open>["A"]\<close> and one row for \<open>A\<close>
  priced \<open>"100.50"\<close>, the run pushes the stock of \<open>A\<close> and no price at all, whereas
  \<open>create_prices\<close> on the listing as fetched gives \<open>A\<close> at \<open>"100"\<close>.
\<close>

theorem seller_main_price_list_empty:
  "seller_main
     (quiet_world (\<lambda>_. Inr [''A''])
        (Inr [\<lparr>Kod = CStr ''A'', Kolichestvo = CStr ''4'', Tsena = CStr ''100.50''\<rparr>]))
     ''client''
   = ([GetOfferIds ''client'', DownloadStock,
       UpdateStocks ''client'' [\<lparr>offer_id = ''A'', stock = 4\<rparr>]], None)
   \<and> create_prices [\<lparr>Kod = CStr ''A'', Kolichestvo = CStr ''4'', Tsena = CStr ''100.50''\<rparr>] [''A'']
     = Inr ([\<lparr>auto_action_enabled = ''UNKNOWN'', currency_code = ''RUB'',
              price_offer_id = ''A'', old_price = ''0'', price = ''100''\<rparr>], [''A''])"
proof -
  let ?rows = "[\<lparr>Kod = CStr ''A'', Kolichestvo = CStr ''4'', Tsena = CStr ''100.50''\<rparr>]"
  have stocks: "create_stocks ?rows [''A''] = Inr ([\<lparr>offer_id = ''A'', stock = 4\<rparr>], [])"
    by (simp add: create_stocks_def create_stocks_with_def stock_of_def int_of_string_4)
  have prices: "create_prices ?rows [] = Inr ([], [])"
    by (simp add: create_prices_def)
  have d1: "divide [\<lparr>offer_id = ''A'', stock = 4\<rparr>] 100 = Inr [[\<lparr>offer_id = ''A'', stock = 4\<rparr>]]"
    by (simp add: divide_def divide_from.simps)
  have d2: "divide ([] :: ozon_price list) 900 = Inr []"
    by (simp add: divide_Nil)
  have main: "seller_main (quiet_world (\<lambda>_. Inr [''A'']) (Inr ?rows)) ''client''
     = ([GetOfferIds ''client'', DownloadStock,
         UpdateStocks ''client'' [\<lparr>offer_id = ''A'', stock = 4\<rparr>]], None)"
    by (simp add: seller_main_def quiet_world_def io_bind_def io_call_def io_pure_def
        try_except_def stocks prices d1 d2)
  have "price_conversion ''100.50'' = Inr ''100''"
    by (simp add: price_conversion_def index0_def is_digit_def)
  then have fresh: "create_prices ?rows [''A'']
     = Inr ([\<lparr>auto_action_enabled = ''UNKNOWN'', currency_code = ''RUB'',
              price_offer_id = ''A'', old_price = ''0'', price = ''100''\<rparr>], [''A''])"
    by (simp add: create_prices_def ozon_price_of_def)
  from main fresh show ?thesis by (rule conjI)
qed

lemma seller_main_returns: "snd (seller_main w client_id) = None"
  by (simp add: seller_main_def try_except_def split: prod.splits sum.splits)

text \<open>
  C8. In \<open>main\<close> of market.py a timeout while listing the FBS campaign is reported and
  the DBS campaign is never attempted; an error of the download, which stands before
  \<open>try\<close>, leaves \<open>main\<close> uncaught. (\<open>main\<close> of seller.py catches every exception:
  \<open>seller_main_returns\<close>.)
\<close>

theorem market_main_failure_paths:
  "market_main
     (quiet_world (\<lambda>c. if c = ''FBS'' then Inl ReadTimeout else Inr [''A''])
        (Inr [\<lparr>Kod = CStr ''A'', Kolichestvo = CStr ''4'', Tsena = CStr ''100.50''\<rparr>]))
     ''FBS'' ''DBS'' ''wh1'' ''wh2''
   = ([DownloadStock, GetOfferIds ''FBS'', Print TimeoutMsg], None)
   \<and> market_main (quiet_world (\<lambda>_. Inr [''A'']) (Inl ConnectionError))
       ''FBS'' ''DBS'' ''wh1'' ''wh2''
     = ([DownloadStock], Some ConnectionError)"
  by (simp add: market_main_def market_campaign_def quiet_world_def io_bind_def io_call_def
      try_except_def handler_def)

subsection \<open>Batch sizes\<close>

lemma divide_chunk_le:
  "snd (io_pure (divide xs (int n)) :: ('ev, 'a list list) io) = Inr batches
     \<Longrightarrow> b \<in> set batches \<Longrightarrow> length b \<le> n"
  by (auto simp: io_pure_def divide_def split: if_splits dest: length_divide_from_le)

lemma seller_main_within_limits:
  "list_all (within_limits 100 900) (fst (seller_main w client_id))"
  unfolding seller_main_def
  using divide_chunk_le [where n = 100] divide_chunk_le [where n = 900]
  by (intro all_try_except all_io_bind all_io_call all_io_pure all_io_for_each all_case_prod)
    (simp_all add: within_limits_def)

lemma seller_upload_stocks_within_limits:
  "list_all (within_limits 100 900) (fst (seller_upload_stocks w watch_remnants client_id))"
  unfolding seller_upload_stocks_def
  using divide_chunk_le [where n = 100]
  by (intro all_io_bind all_io_call all_io_pure all_io_for_each all_case_prod)
    (simp_all add: within_limits_def)

lemma seller_upload_prices_within_1000:
  "list_all (within_limits 100 1000) (fst (seller_upload_prices w watch_remnants client_id))"
  unfolding seller_upload_prices_def
  using divide_chunk_le [where n = 1000]
  by (intro all_io_bind all_io_call all_io_pure all_io_for_each all_case_prod)
    (simp_all add: within_limits_def)

lemma market_campaign_within_limits:
  "list_all (within_limits 2000 500) (fst (market_campaign w watch_remnants k campaign_id warehouse_id))"
  unfolding market_campaign_def
  using divide_chunk_le [where n = 2000]
  by (intro all_io_bind all_io_call all_io_pure all_io_for_each all_case_prod)
    (simp_all add: within_limits_def)

lemma market_main_within_limits:
  "list_all (within_limits 2000 500) (fst (market_main w fbs dbs wh_fbs wh_dbs))"
proof (cases "download_stock w")
  case (Inl e)
  then show ?thesis by (simp add: market_main_def within_limits_def)
next
  case (Inr rows)
  have "list_all (within_limits 2000 500)
          (fst (try_except (io_bind (market_campaign w rows 0 fbs wh_fbs)
                  (\<lambda>_. market_campaign w rows 1 dbs wh_dbs))))"
    by (intro all_try_except all_io_bind market_campaign_within_limits)
      (simp add: within_limits_def)
  with Inr show ?thesis
    by (auto simp: market_main_def within_limits_def split: prod.splits)
qed

lemma market_upload_stocks_within_limits:
  "list_all (within_limits 2000 500)
     (fst (market_upload_stocks w watch_remnants campaign_id warehouse_id))"
  unfolding market_upload_stocks_def
  using divide_chunk_le [where n = 2000]
  by (intro all_io_bind all_io_call all_io_pure all_io_for_each all_case_prod)
    (simp_all add: within_limits_def)

lemma market_upload_prices_within_limits:
  "list_all (within_limits 2000 500) (fst (market_upload_prices w watch_remnants campaign_id))"
  unfolding market_upload_prices_def
  using divide_chunk_le [where n = 500]
  by (intro all_io_bind all_io_call all_io_pure all_io_for_each all_case_prod)
    (simp_all add: within_limits_def)

lemma prices_loop_all_matched:
  assumes "\<forall>w \<in> set rows. py_str (Kod w) \<in> set ids" "\<forall>w \<in> set rows. mk w = Inr (g w)"
  shows "prices_loop mk rows acc ids = Inr (acc @ map g rows, ids)"
  using assms by (induction rows arbitrary: acc) auto

lemma divide_single:
  assumes "xs \<noteq> []" "length xs \<le> n"
  shows "divide xs (int n) = Inr [xs]"
proof -
  from assms have n: "0 < n" by (cases xs) auto
  have "divide_from xs n 0 = take n (drop 0 xs) # divide_from xs n (0 + n)"
    using assms n by (subst divide_from.simps) simp
  moreover have "divide_from xs n (0 + n) = []"
    using assms by (subst divide_from.simps) simp
  ultimately show ?thesis using assms n by (simp add: divide_def)
qed

text \<open>
  C7. \<open>upload_prices\<close> of seller.py cuts the price list with \<open>divide(prices, 1000)\<close>,
  where \<open>main\<close> of the same file uses 900: for a listing and a feed of 901 matching
  identifiers it passes all 901 price entries to one call of \<open>update_price\<close>. Every
  other upload path keeps the limits of the claim (the lemmas \<open>*_within_limits\<close>).
\<close>

theorem seller_upload_prices_batch_of_901:
  "fst (seller_upload_prices (quiet_world (\<lambda>_. Inr (map string_of_nat [0..<901])) (Inr []))
          feed_901 ''client'')
     = [GetOfferIds ''client'', UpdatePrice ''client'' prices_901]
   \<and> length prices_901 = 901
   \<and> \<not> within_limits 100 900
         (UpdatePrice ''client'' prices_901 :: (ozon_stock, ozon_price) event)"
proof -
  let ?ids = "map string_of_nat [0..<901]"
  let ?g = "\<lambda>w. \<lparr>auto_action_enabled = ''UNKNOWN'', currency_code = ''RUB'',
                  price_offer_id = py_str (Kod w), old_price = ''0'', price = ''100''\<rparr>"
  have pc: "price_conversion ''100'' = Inr ''100''"
    by (simp add: price_conversion_def index0_def is_digit_def)
  have "prices_loop ozon_price_of feed_901 [] ?ids = Inr ([] @ map ?g feed_901, ?ids)"
    by (rule prices_loop_all_matched) (auto simp: feed_901_def ozon_price_of_def pc)
  moreover have "map ?g feed_901 = prices_901"
    by (simp add: feed_901_def prices_901_def)
  ultimately have cp: "create_prices feed_901 ?ids = Inr (prices_901, ?ids)"
    by (simp add: create_prices_def)
  have len: "length prices_901 = 901" by (simp add: prices_901_def)
  then have ne: "prices_901 \<noteq> []" by auto
  have dv: "divide prices_901 1000 = Inr [prices_901]"
    using divide_single [OF ne, of 1000] len by simp
  have "fst (seller_upload_prices (quiet_world (\<lambda>_. Inr ?ids) (Inr [])) feed_901 ''client'')
     = [GetOfferIds ''client'', UpdatePrice ''client'' prices_901]"
    by (simp add: seller_upload_prices_def quiet_world_def io_bind_def io_call_def io_pure_def
        cp dv)
  with len show ?thesis by (simp add: within_limits_def)
qed

subsection \<open>Two runs on the same feed and listing\<close>

lemma divide_from_map: "divide_from (map f xs) n i = map (map f) (divide_from xs n i)"
proof (induction xs n i rule: divide_from.induct)
  case (1 lst n i)
  show ?case
  proof (cases "n = 0 \<or> length lst \<le> i")
    case True
    then show ?thesis
      by (subst divide_from.simps, subst (2) divide_from.simps) simp
  next
    case False
    with 1 show ?thesis
      by (subst divide_from.simps, subst (2) divide_from.simps) (simp add: take_map drop_map)
  qed
qed

lemma divide_map: "divide (map f xs) n = map_sum id (map (map f)) (divide xs n)"
  by (simp add: divide_def divide_from_map)

lemma market_stocks_two_dates:
  assumes "market_create_stocks d1 rows ids wh = Inr (s1, r1)"
  shows "market_create_stocks d2 rows ids wh = Inr (map (restamp d2) s1, r1)"
    and "map (restamp d2) s1 = s1 \<longleftrightarrow> d1 = d2 \<or> s1 = []"
proof -
  let ?mk = "\<lambda>d (c, q). \<lparr>sku = c, warehouseId = wh,
                 items = [\<lparr>count = q, item_type = ''FIT'', updatedAt = d\<rparr>]\<rparr>"
  from assms obtain ps where ps: "create_stocks_with Pair rows ids = Inr (ps, r1)"
    and s1: "s1 = map (?mk d1) ps"
    unfolding market_create_stocks_def
    by (subst (asm) create_stocks_with_pairs) (auto split: sum.splits)
  have re: "map (restamp d2) s1 = map (?mk d2) ps"
    unfolding s1 by (auto simp: restamp_def)
  show "market_create_stocks d2 rows ids wh = Inr (map (restamp d2) s1, r1)"
    unfolding market_create_stocks_def re
    by (subst create_stocks_with_pairs) (simp add: ps)
  show "map (restamp d2) s1 = s1 \<longleftrightarrow> d1 = d2 \<or> s1 = []"
    unfolding re unfolding s1 by (cases ps) auto
qed

text \<open>
  C9 (amended). With the same feed, the same listing and the same answers of the
  server, a run of seller.py makes the same calls with the same batches whatever the
  clock reads, and so do the price uploads of market.py. The stock entries of market.py
  carry the UTC second read by \<open>create_stocks\<close>: two runs build the same stock batches
  up to the field \<open>updatedAt\<close>, and identical ones exactly when both read the same second
  or there is no entry.
\<close>

theorem sync_twice_batches:
  "seller_main (w\<lparr>utcnow := clock\<rparr>) client_id = seller_main w client_id
   \<and> market_upload_prices (mw\<lparr>utcnow := clock\<rparr>) watch_remnants campaign_id
       = market_upload_prices mw watch_remnants campaign_id
   \<and> (market_create_stocks d1 watch_remnants offer_ids warehouse_id = Inr (s1, r1) \<longrightarrow>
        market_create_stocks d2 watch_remnants offer_ids warehouse_id
          = Inr (map (restamp d2) s1, r1)
        \<and> divide (map (restamp d2) s1) 2000
            = map_sum id (map (map (restamp d2))) (divide s1 2000)
        \<and> (map (restamp d2) s1 = s1 \<longleftrightarrow> d1 = d2 \<or> s1 = []))"
proof (intro conjI impI)
  show "seller_main (w\<lparr>utcnow := clock\<rparr>) client_id = seller_main w client_id"
    by (simp add: seller_main_def)
  show "market_upload_prices (mw\<lparr>utcnow := clock\<rparr>) watch_remnants campaign_id
       = market_upload_prices mw watch_remnants campaign_id"
    by (simp add: market_upload_prices_def)
next
  assume run: "market_create_stocks d1 watch_remnants offer_ids warehouse_id = Inr (s1, r1)"
  show "market_create_stocks d2 watch_remnants offer_ids warehouse_id
          = Inr (map (restamp d2) s1, r1)"
    by (rule market_stocks_two_dates(1) [OF run])
  show "divide (map (restamp d2) s1) 2000
            = map_sum id (map (map (restamp d2))) (divide s1 2000)"
    by (rule divide_map)
  show "map (restamp d2) s1 = s1 \<longleftrightarrow> d1 = d2 \<or> s1 = []"
    by (rule market_stocks_two_dates(2) [OF run])
qed

lemma market_create_stocks_A:
  "market_create_stocks d [\<lparr>Kod = CStr ''A'', Kolichestvo = CStr ''4'', Tsena = CStr ''100.50''\<rparr>]
     [''A''] wh
   = Inr ([\<lparr>sku = ''A'', warehouseId = wh,
            items = [\<lparr>count = 4, item_type = ''FIT'', updatedAt = d\<rparr>]\<rparr>], [])"
  by (simp add: market_create_stocks_def create_stocks_with_def stock_of_def int_of_string_4)

lemma market_main_A:
  "market_main
     ((quiet_world (\<lambda>_. Inr [''A''])
        (Inr [\<lparr>Kod = CStr ''A'', Kolichestvo = CStr ''4'', Tsena = CStr ''100.50''\<rparr>]))
      \<lparr>utcnow := (\<lambda>_. d)\<rparr>)
     ''FBS'' ''DBS'' ''wh1'' ''wh2''
   = ([DownloadStock, GetOfferIds ''FBS'',
       UpdateStocks ''FBS'' [\<lparr>sku = ''A'', warehouseId = ''wh1'',
            items = [\<lparr>count = 4, item_type = ''FIT'', updatedAt = d\<rparr>]\<rparr>],
       GetOfferIds ''DBS'',
       UpdateStocks ''DBS'' [\<lparr>sku = ''A'', warehouseId = ''wh2'',
            items = [\<lparr>count = 4, item_type = ''FIT'', updatedAt = d\<rparr>]\<rparr>]], None)"
  by (simp add: market_main_def market_campaign_def quiet_world_def io_bind_def io_call_def
      io_pure_def try_except_def market_create_stocks_A divide_def divide_from.simps)

text \<open>
  The claim C9 as stated fails for market.py: two runs one second apart, on the same
  feed and listing, push different stock batches.
\<close>

theorem sync_twice_counterexample:
  "market_main
     ((quiet_world (\<lambda>_. Inr [''A''])
        (Inr [\<lparr>Kod = CStr ''A'', Kolichestvo = CStr ''4'', Tsena = CStr ''100.50''\<rparr>]))
      \<lparr>utcnow := (\<lambda>_. ''2024-01-01T00:00:00Z'')\<rparr>)
     ''FBS'' ''DBS'' ''wh1'' ''wh2''
   \<noteq> market_main
     ((quiet_world (\<lambda>_. Inr [''A''])
        (Inr [\<lparr>Kod = CStr ''A'', Kolichestvo = CStr ''4'', Tsena = CStr ''100.50''\<rparr>]))
      \<lparr>utcnow := (\<lambda>_. ''2024-01-01T00:00:01Z'')\<rparr>)
     ''FBS'' ''DBS'' ''wh1'' ''wh2''"
  unfolding market_main_A by simp

theorem sync_twice_batches_witness:
  "market_create_stocks ''2024-01-01T00:00:00Z''
     [\<lparr>Kod = CStr ''A'', Kolichestvo = CStr ''4'', Tsena = CStr ''100.50''\<rparr>] [''A''] ''wh1''
   = Inr ([\<lparr>sku = ''A'', warehouseId = ''wh1'',
            items = [\<lparr>count = 4, item_type = ''FIT'', updatedAt = ''2024-01-01T00:00:00Z''\<rparr>]\<rparr>], [])
   \<and> market_create_stocks ''2024-01-01T00:00:01Z''
     [\<lparr>Kod = CStr ''A'', Kolichestvo = CStr ''4'', Tsena = CStr ''100.50''\<rparr>] [''A''] ''wh1''
   = Inr (map (restamp ''2024-01-01T00:00:01Z'')
           [\<lparr>sku = ''A'', warehouseId = ''wh1'',
             items = [\<lparr>count = 4, item_type = ''FIT'', updatedAt = ''2024-01-01T00:00:00Z''\<rparr>]\<rparr>], [])"
  using sync_twice_batches [THEN conjunct2, THEN conjunct2, rule_format, THEN conjunct1,
      OF market_create_stocks_A [of "''2024-01-01T00:00:00Z''" "''wh1''"],
      of "''2024-01-01T00:00:01Z''"]
    market_create_stocks_A [of "''2024-01-01T00:00:00Z''" "''wh1''"]
  by simp

end
